theory Spec2Isabelle
  imports Main
begin

section \<open>The Go library and runtime, as far as main.go uses them\<close>

text \<open>
  Go strings are byte sequences: \<open>string\<close>. The functions of the Go standard library and
  of the Prometheus client whose result depends on Unicode tables, on floating point or on
  the library's version are parameters of the model (one record, \<open>golib\<close>), so that every
  theorem holds for whatever these functions compute:
  \<^item> \<open>ToLower\<close>, \<open>TrimSpace\<close>: \<^verbatim>\<open>strings.ToLower\<close>, \<^verbatim>\<open>strings.TrimSpace\<close>;
  \<^item> \<open>ParseFloat\<close>: \<^verbatim>\<open>strconv.ParseFloat(s, 64)\<close>, \<open>None\<close> when it returns an error; the type
    \<open>'f\<close> stands for \<^verbatim>\<open>float64\<close>;
  \<^item> \<open>Atoi\<close>: \<^verbatim>\<open>strconv.Atoi\<close>, \<open>None\<close> when it returns an error;
  \<^item> \<open>Sprint_other\<close>: \<^verbatim>\<open>fmt.Sprintf("%v", v)\<close> for a value \<open>v\<close> of any dynamic type other than
    the ones \<open>Value\<close> lists (a \<^verbatim>\<open>float64\<close>, a \<^verbatim>\<open>time.Time\<close>, a type of the driver);
  \<^item> \<open>constMetricError\<close>: the error of \<^verbatim>\<open>prometheus.NewDesc\<close> followed by
    \<^verbatim>\<open>prometheus.NewConstMetric\<close> for a fully-qualified name, a help text, the label names
    and the label values (an invalid metric or label name, a repeated label name, a label
    value that is not UTF-8), \<open>None\<close> when the library accepts them;
  \<^item> \<open>mapRange n m\<close>: the entries of the map \<open>m\<close> in the order in which the \<open>n\<close>-th
    \<^verbatim>\<open>range\<close> loop of a scrape visits them. Go leaves the order to the runtime, and it may
    differ from one loop to the next.
\<close>

record ('f, 'o) golib =
  ToLower :: "string \<Rightarrow> string"
  TrimSpace :: "string \<Rightarrow> string"
  ParseFloat :: "string \<Rightarrow> 'f option"
  Atoi :: "string \<Rightarrow> int option"
  Sprint_other :: "'o \<Rightarrow> string"
  constMetricError :: "string \<Rightarrow> string \<Rightarrow> string list \<Rightarrow> string list \<Rightarrow> string option"
  mapRange :: "nat \<Rightarrow> (string \<rightharpoonup> string) \<Rightarrow> (string \<times> string) list"

text \<open>
  An \<^verbatim>\<open>error\<close> value is given by the text its method \<^verbatim>\<open>Error()\<close> returns, which is all
  the code ever reads of one (it logs it): nothing tells an error made by this program
  with \<^verbatim>\<open>errors.New\<close> or \<^verbatim>\<open>fmt.Errorf\<close> from an error of the same text that a library
  hands over. A panic and \<^verbatim>\<open>log.Fatal\<close> end the run.
\<close>

datatype error = ErrorString string

datatype abort = Panic error | Fatal string

text \<open>Indexing a \<^verbatim>\<open>map[string]string\<close>: a missing key reads as the empty string.\<close>

definition index :: "(string \<rightharpoonup> string) \<Rightarrow> string \<Rightarrow> string" where
  "index m k = (case m k of None \<Rightarrow> [] | Some v \<Rightarrow> v)"

text \<open>
  \<^verbatim>\<open>strings.Replace(s, old, new, -1)\<close> for a pattern \<open>old\<close> of one byte: every occurrence is
  replaced.
\<close>

definition Replace :: "string \<Rightarrow> char \<Rightarrow> string \<Rightarrow> string" where
  "Replace s old new = concat (map (\<lambda>c. if c = old then new else [c]) s)"

text \<open>
  \<^verbatim>\<open>prometheus.BuildFQName\<close>: the non-empty parts joined by an underscore, and the empty
  name when \<open>name\<close> is empty.
\<close>

definition BuildFQName :: "string \<Rightarrow> string \<Rightarrow> string \<Rightarrow> string" where
  "BuildFQName namespace subsystem name =
     (if name = [] then []
      else if namespace \<noteq> [] \<and> subsystem \<noteq> [] then namespace @ ''_'' @ subsystem @ ''_'' @ name
      else if namespace \<noteq> [] then namespace @ ''_'' @ name
      else if subsystem \<noteq> [] then subsystem @ ''_'' @ name
      else name)"

section \<open>Data model\<close>

text \<open>The constant \<^verbatim>\<open>namespace\<close> of main.go.\<close>

definition namespace :: string where
  "namespace = ''dmdb''"

text \<open>The struct \<^verbatim>\<open>Metric\<close>: one metric definition of the TOML file.\<close>

record Metric =
  Context :: string
  Labels :: "string list"
  MetricsDesc :: "string \<rightharpoonup> string"
  MetricsType :: "string \<rightharpoonup> string"
  FieldToAppend :: string
  Request :: string
  IgnoreZeroResult :: bool

datatype ValueType = CounterValue | GaugeValue

text \<open>
  What \<^verbatim>\<open>prometheus.MustNewConstMetric\<close> returns and the code sends on the channel: the
  descriptor's name, help text and label names, the kind, the value and the label values.
\<close>

record 'f Sample =
  fqName :: string
  helpText :: string
  variableLabels :: "string list"
  sampleType :: ValueType
  val :: 'f
  labelValues :: "string list"

text \<open>The calls of \<^verbatim>\<open>log.Errorln\<close>, one constructor for each place that logs.\<close>

datatype log_event =
    UnableToConvert string string string
  | MissingRequest
  | MissingMetricsDesc
  | ErrorScraping string error

section \<open>Type Resolver: GetMetricType\<close>

definition strToPromType :: "(string \<times> ValueType) list" where
  "strToPromType = [(''gauge'', GaugeValue), (''counter'', CounterValue)]"

definition GetMetricType ::
  "('f, 'o) golib \<Rightarrow> string \<Rightarrow> (string \<rightharpoonup> string) \<Rightarrow> abort + ValueType" where
  "GetMetricType L metricType metricsType =
     (case metricsType (ToLower L metricType) of
        None \<Rightarrow> Inr GaugeValue
      | Some strType \<Rightarrow>
          (case map_of strToPromType (ToLower L strType) of
             None \<Rightarrow> Inl (Panic (ErrorString
                       (''Error while getting prometheus type '' @ ToLower L strType)))
           | Some valueType \<Rightarrow> Inr valueType))"

section \<open>cleanName\<close>

definition cleanName :: "('f, 'o) golib \<Rightarrow> string \<Rightarrow> string" where
  "cleanName L s =
     ToLower L
       (Replace (Replace (Replace (Replace (Replace s CHR '' '' ''_'') CHR ''('' [])
          CHR '')'' []) CHR ''/'' []) CHR ''*'' [])"

section \<open>Metric Translator: the closure genericParser of ScrapeGenericValues\<close>

text \<open>
  The state the closure works on: the counter \<^verbatim>\<open>metricsCount\<close>, the samples sent on the
  channel \<^verbatim>\<open>ch\<close> so far (oldest first) and the error lines logged so far. \<open>ranged\<close> counts
  the \<^verbatim>\<open>range metricsDesc\<close> loops started, for \<open>mapRange\<close>.
\<close>

record 'f pstate =
  metricsCount :: nat
  sent :: "'f Sample list"
  logged :: "log_event list"
  ranged :: nat

text \<open>
  \<^verbatim>\<open>prometheus.MustNewConstMetric(prometheus.NewDesc(fqName, help, labels, nil), vt, value,
  labelValues...)\<close>: it panics with the library's error, when there is one.
\<close>

definition MustNewConstMetric ::
  "('f, 'o) golib \<Rightarrow> string \<Rightarrow> string \<Rightarrow> string list \<Rightarrow> ValueType \<Rightarrow> 'f \<Rightarrow> string list
     \<Rightarrow> abort + 'f Sample" where
  "MustNewConstMetric L name hlp labels vt v lvs =
     (case constMetricError L name hlp labels lvs of
        Some msg \<Rightarrow> Inl (Panic (ErrorString msg))
      | None \<Rightarrow> Inr \<lparr>fqName = name, helpText = hlp, variableLabels = labels,
                      sampleType = vt, val = v, labelValues = lvs\<rparr>)"

text \<open>
  The body of the loop over the value columns for one entry that parsed: the sample the
  code sends, or the panic of \<^verbatim>\<open>GetMetricType\<close> (its call is evaluated before
  \<^verbatim>\<open>MustNewConstMetric\<close> runs) or of \<^verbatim>\<open>MustNewConstMetric\<close>.
\<close>

definition newSample ::
  "('f, 'o) golib \<Rightarrow> string \<Rightarrow> string list \<Rightarrow> (string \<rightharpoonup> string) \<Rightarrow> string \<Rightarrow> string list
     \<Rightarrow> (string \<rightharpoonup> string) \<Rightarrow> string \<Rightarrow> string \<Rightarrow> 'f \<Rightarrow> abort + 'f Sample" where
  "newSample L context labels metricsType fieldToAppend labelsValues row metric metricHelp v =
     (if fieldToAppend = [] then
        (case GetMetricType L metric metricsType of
           Inl a \<Rightarrow> Inl a
         | Inr vt \<Rightarrow>
             MustNewConstMetric L (BuildFQName namespace context metric) metricHelp labels
               vt v labelsValues)
      else
        (case GetMetricType L metric metricsType of
           Inl a \<Rightarrow> Inl a
         | Inr vt \<Rightarrow>
             MustNewConstMetric L
               (BuildFQName namespace context (cleanName L (index row fieldToAppend)))
               metricHelp [] vt v []))"

text \<open>
  The loop \<^verbatim>\<open>for metric, metricHelp := range metricsDesc\<close>, over the entries in the order
  \<open>es\<close> in which this run of the loop visits them.
\<close>

fun valuesLoop ::
  "('f, 'o) golib \<Rightarrow> string \<Rightarrow> string list \<Rightarrow> (string \<rightharpoonup> string) \<Rightarrow> string \<Rightarrow> string list
     \<Rightarrow> (string \<rightharpoonup> string) \<Rightarrow> (string \<times> string) list \<Rightarrow> 'f pstate \<Rightarrow> abort + 'f pstate" where
  "valuesLoop L context labels metricsType fieldToAppend labelsValues row [] s = Inr s"
| "valuesLoop L context labels metricsType fieldToAppend labelsValues row ((metric, metricHelp) # es) s =
     (case ParseFloat L (TrimSpace L (index row metric)) of
        None \<Rightarrow>
          valuesLoop L context labels metricsType fieldToAppend labelsValues row es
            (s\<lparr>logged := logged s @ [UnableToConvert metric metricHelp (index row metric)]\<rparr>)
      | Some v \<Rightarrow>
          (case newSample L context labels metricsType fieldToAppend labelsValues row
                  metric metricHelp v of
             Inl a \<Rightarrow> Inl a
           | Inr x \<Rightarrow>
               valuesLoop L context labels metricsType fieldToAppend labelsValues row es
                 (s\<lparr>sent := sent s @ [x], metricsCount := Suc (metricsCount s)\<rparr>)))"

text \<open>
  The closure: the label values are read from the row, then the loop runs. It always
  returns the error \<^verbatim>\<open>nil\<close> (\<open>None\<close>).
\<close>

definition genericParser ::
  "('f, 'o) golib \<Rightarrow> string \<Rightarrow> string list \<Rightarrow> (string \<rightharpoonup> string) \<Rightarrow> (string \<rightharpoonup> string)
     \<Rightarrow> string \<Rightarrow> (string \<rightharpoonup> string) \<Rightarrow> 'f pstate \<Rightarrow> abort + (error option \<times> 'f pstate)" where
  "genericParser L context labels metricsDesc metricsType fieldToAppend row s =
     (let labelsValues = map (index row) labels in
      case valuesLoop L context labels metricsType fieldToAppend labelsValues row
             (mapRange L (ranged s) metricsDesc) (s\<lparr>ranged := Suc (ranged s)\<rparr>) of
        Inl a \<Rightarrow> Inl a
      | Inr s' \<Rightarrow> Inr (None, s'))"

section \<open>Row Normalizer and Generic Value Scraper: GeneratePrometheusMetrics\<close>

text \<open>
  What \<^verbatim>\<open>rows.Scan\<close> stores in a destination of type \<^verbatim>\<open>*interface{}\<close>: the driver's
  value as it is. SQL NULL is the \<^verbatim>\<open>nil\<close> value.
\<close>

datatype 'o Value =
    VNil
  | VInt64 int
  | VBool bool
  | VBytes "nat list"
  | VString string
  | VOther 'o

text \<open>Decimal digits of an unsigned number, as \<^verbatim>\<open>%v\<close> and \<^verbatim>\<open>%d\<close> print them.\<close>

fun FormatUint :: "nat \<Rightarrow> string" where
  "FormatUint n =
     (if n < 10 then [''0123456789'' ! n]
      else FormatUint (n div 10) @ [''0123456789'' ! (n mod 10)])"

declare FormatUint.simps [simp del]

fun joinSpace :: "string list \<Rightarrow> string" where
  "joinSpace [] = []"
| "joinSpace [x] = x"
| "joinSpace (x # y # ys) = x @ '' '' @ joinSpace (y # ys)"

text \<open>\<^verbatim>\<open>fmt.Sprintf("%v", *val)\<close>.\<close>

definition Sprintf_v :: "('f, 'o) golib \<Rightarrow> 'o Value \<Rightarrow> string" where
  "Sprintf_v L v =
     (case v of
        VNil \<Rightarrow> ''<nil>''
      | VInt64 i \<Rightarrow> (if i < 0 then ''-'' @ FormatUint (nat (- i)) else FormatUint (nat i))
      | VBool b \<Rightarrow> (if b then ''true'' else ''false'')
      | VBytes bs \<Rightarrow> ''['' @ joinSpace (map FormatUint bs) @ '']''
      | VString s \<Rightarrow> s
      | VOther x \<Rightarrow> Sprint_other L x)"

text \<open>
  The loop that fills the map \<^verbatim>\<open>m\<close> from the column names and the scanned values
  (\<^verbatim>\<open>columns\<close> has as many elements as \<^verbatim>\<open>cols\<close>): a later column overwrites an earlier
  one of the same lower-cased name.
\<close>

definition rowMap :: "('f, 'o) golib \<Rightarrow> string list \<Rightarrow> 'o Value list \<Rightarrow> (string \<rightharpoonup> string)" where
  "rowMap L cols columns =
     fold (\<lambda>(colName, v) m. m(ToLower L colName \<mapsto> Sprintf_v L v)) (zip cols columns) Map.empty"

text \<open>
  The result set \<^verbatim>\<open>rows\<close> of a query that started: the column names (\<^verbatim>\<open>rows.Columns()\<close>,
  whose error the code drops), one entry for each call of \<^verbatim>\<open>rows.Next()\<close> that returned
  true, and the error \<^verbatim>\<open>rows.Err()\<close> that made \<^verbatim>\<open>rows.Next()\<close> return false (\<open>None\<close> at the
  regular end of the result). An entry is what the driver delivered for the row, or the
  error \<^verbatim>\<open>rows.Scan\<close> returns for it. The errors of database/sql and of the driver are
  given by their texts.
\<close>

record 'o Rows =
  Columns :: "string list"
  delivered :: "(string + 'o Value list) list"
  Err :: "string option"

text \<open>
  \<^verbatim>\<open>rows.Scan(columnPointers...)\<close> with one destination for each name in \<^verbatim>\<open>cols\<close>:
  database/sql refuses a number of destinations that is not the row's number of values.
\<close>

definition Scan :: "string list \<Rightarrow> string + 'o Value list \<Rightarrow> error + 'o Value list" where
  "Scan cols r =
     (case r of
        Inl msg \<Rightarrow> Inl (ErrorString msg)
      | Inr columns \<Rightarrow>
          if length columns \<noteq> length cols
          then Inl (ErrorString (''sql: expected '' @ FormatUint (length columns) @
                 '' destination arguments in Scan, not '' @ FormatUint (length cols)))
          else Inr columns)"

text \<open>The loop \<^verbatim>\<open>for rows.Next() { ... }\<close> over the delivered rows.\<close>

fun rowsLoop ::
  "('f, 'o) golib \<Rightarrow> ((string \<rightharpoonup> string) \<Rightarrow> 's \<Rightarrow> abort + (error option \<times> 's)) \<Rightarrow> string list
     \<Rightarrow> (string + 'o Value list) list \<Rightarrow> 's \<Rightarrow> abort + (error option \<times> 's)" where
  "rowsLoop L parse cols [] s = Inr (None, s)"
| "rowsLoop L parse cols (r # rs) s =
     (case Scan cols r of
        Inl e \<Rightarrow> Inr (Some e, s)
      | Inr columns \<Rightarrow>
          (case parse (rowMap L cols columns) s of
             Inl a \<Rightarrow> Inl a
           | Inr (Some e, s') \<Rightarrow> Inr (Some e, s')
           | Inr (None, s') \<Rightarrow> rowsLoop L parse cols rs s'))"

text \<open>
  What the database does with one call of \<^verbatim>\<open>db.QueryContext(ctx, query)\<close>: the value of
  \<^verbatim>\<open>ctx.Err()\<close> when the call returns, and the call's result, the error of database/sql
  (by its text) or the rows. A deadline that expires later, while the rows are read, ends
  the iteration: \<^verbatim>\<open>rows.Next()\<close> returns false and \<^verbatim>\<open>rows.Err()\<close> is the context's error,
  of text \<open>context deadline exceeded\<close>.
\<close>

datatype ctx_error = Canceled | DeadlineExceeded

record 'o QueryOutcome =
  ctxErr :: "ctx_error option"
  queried :: "string + 'o Rows"

text \<open>
  \<^verbatim>\<open>GeneratePrometheusMetrics\<close>, with the state \<open>s\<close> of the row handler passed through.
  \<^verbatim>\<open>log.Fatal\<close> ends the process when the timeout option is no number (its message ends
  with the text of the conversion error). The deadline is checked once, when
  \<^verbatim>\<open>db.QueryContext\<close> has returned and before its error is looked at.
\<close>

definition GeneratePrometheusMetrics ::
  "('f, 'o) golib \<Rightarrow> string \<Rightarrow> (string \<Rightarrow> 'o QueryOutcome)
     \<Rightarrow> ((string \<rightharpoonup> string) \<Rightarrow> 's \<Rightarrow> abort + (error option \<times> 's)) \<Rightarrow> string \<Rightarrow> 's
     \<Rightarrow> abort + (error option \<times> 's)" where
  "GeneratePrometheusMetrics L queryTimeout db parse query s =
     (case Atoi L queryTimeout of
        None \<Rightarrow> Inl (Fatal ''error while converting timeout option value: '')
      | Some timeout \<Rightarrow>
          if ctxErr (db query) = Some DeadlineExceeded
          then Inr (Some (ErrorString ''DM query timed out''), s)
          else
            (case queried (db query) of
               Inl msg \<Rightarrow> Inr (Some (ErrorString msg), s)
             | Inr rows \<Rightarrow> rowsLoop L parse (Columns rows) (delivered rows) s))"

section \<open>ScrapeGenericValues and ScrapeMetric\<close>

text \<open>The state in which \<^verbatim>\<open>ScrapeGenericValues\<close> starts: nothing counted, sent or logged.\<close>

definition initial :: "'f pstate" where
  "initial = \<lparr>metricsCount = 0, sent = [], logged = [], ranged = 0\<rparr>"

text \<open>
  The result holds the error returned and, in the state, the samples this call sent on
  \<^verbatim>\<open>ch\<close> and the lines it logged.
\<close>

definition ScrapeGenericValues ::
  "('f, 'o) golib \<Rightarrow> string \<Rightarrow> (string \<Rightarrow> 'o QueryOutcome) \<Rightarrow> string \<Rightarrow> string list
     \<Rightarrow> (string \<rightharpoonup> string) \<Rightarrow> (string \<rightharpoonup> string) \<Rightarrow> string \<Rightarrow> bool \<Rightarrow> string
     \<Rightarrow> abort + (error option \<times> 'f pstate)" where
  "ScrapeGenericValues L queryTimeout db context labels metricsDesc metricsType fieldToAppend
       ignoreZeroResult request =
     (case GeneratePrometheusMetrics L queryTimeout db
             (genericParser L context labels metricsDesc metricsType fieldToAppend) request
             initial of
        Inl a \<Rightarrow> Inl a
      | Inr (Some e, s) \<Rightarrow> Inr (Some e, s)
      | Inr (None, s) \<Rightarrow>
          if \<not> ignoreZeroResult \<and> metricsCount s = 0
          then Inr (Some (ErrorString ''No metrics found while parsing''), s)
          else Inr (None, s))"

definition ScrapeMetric ::
  "('f, 'o) golib \<Rightarrow> string \<Rightarrow> (string \<Rightarrow> 'o QueryOutcome) \<Rightarrow> Metric
     \<Rightarrow> abort + (error option \<times> 'f pstate)" where
  "ScrapeMetric L queryTimeout db metricDefinition =
     ScrapeGenericValues L queryTimeout db (Context metricDefinition) (Labels metricDefinition)
       (MetricsDesc metricDefinition) (MetricsType metricDefinition)
       (FieldToAppend metricDefinition) (IgnoreZeroResult metricDefinition)
       (Request metricDefinition)"

section \<open>Collector: the task that (*Exporter).scrape starts for one definition\<close>

text \<open>
  The variables of the scrape cycle that the goroutines reach: the variable \<^verbatim>\<open>err\<close>
  declared at the top of \<^verbatim>\<open>scrape\<close> (read afterwards by the deferred function, which sets
  the gauge \<^verbatim>\<open>last_scrape_error\<close> from it), the channel \<^verbatim>\<open>ch\<close>, the counter vector
  \<^verbatim>\<open>e.scrapeErrors\<close> by label value, and the log.
\<close>

record 'f cycle =
  err :: "error option"
  ch :: "'f Sample list"
  scrapeErrors :: "string \<Rightarrow> nat"
  errlog :: "log_event list"

text \<open>The body of the goroutine, run for the definition \<open>metric\<close> on the cycle's variables.\<close>

definition scrapeTask ::
  "('f, 'o) golib \<Rightarrow> string \<Rightarrow> (string \<Rightarrow> 'o QueryOutcome) \<Rightarrow> Metric \<Rightarrow> 'f cycle
     \<Rightarrow> abort + 'f cycle" where
  "scrapeTask L queryTimeout db metric c =
     (let c1 = (if length (Request metric) = 0
                then c\<lparr>errlog := errlog c @ [MissingRequest]\<rparr> else c);
          c2 = (if MetricsDesc metric = Map.empty
                then c1\<lparr>errlog := errlog c1 @ [MissingMetricsDesc]\<rparr> else c1)
      in case ScrapeMetric L queryTimeout db metric of
           Inl a \<Rightarrow> Inl a
         | Inr (e, p) \<Rightarrow>
             (let c3 = c2\<lparr>err := e, ch := ch c2 @ sent p, errlog := errlog c2 @ logged p\<rparr>
              in case e of
                   Some x \<Rightarrow>
                     Inr (c3\<lparr>errlog := errlog c3 @ [ErrorScraping (Context metric) x],
                             scrapeErrors := (scrapeErrors c3)
                               (Context metric := Suc (scrapeErrors c3 (Context metric)))\<rparr>)
                 | None \<Rightarrow> Inr c3))"

text \<open>
  The deferred function of \<^verbatim>\<open>scrape\<close>: the value it gives the gauge
  \<^verbatim>\<open>last_scrape_error\<close> once every task is done.
\<close>

definition lastScrapeError :: "'f cycle \<Rightarrow> nat" where
  "lastScrapeError c = (if err c = None then 0 else 1)"

text \<open>The tasks of a cycle, when they run to their end one after the other in the order given.\<close>

fun runTasks ::
  "('f, 'o) golib \<Rightarrow> string \<Rightarrow> (string \<Rightarrow> 'o QueryOutcome) \<Rightarrow> Metric list \<Rightarrow> 'f cycle
     \<Rightarrow> abort + 'f cycle" where
  "runTasks L queryTimeout db [] c = Inr c"
| "runTasks L queryTimeout db (metric # metrics) c =
     (case scrapeTask L queryTimeout db metric c of
        Inl a \<Rightarrow> Inl a
      | Inr c' \<Rightarrow> runTasks L queryTimeout db metrics c')"

section \<open>Target Resolver: formExporterDSN\<close>

text \<open>\<^verbatim>\<open>strings.Split(s, ":")\<close> for the separator of one byte.\<close>

fun Split :: "string \<Rightarrow> char \<Rightarrow> string list" where
  "Split [] sep = [[]]"
| "Split (c # cs) sep =
     (if c = sep then [] # Split cs sep
      else (case Split cs sep of [] \<Rightarrow> [[c]] | p # ps \<Rightarrow> (c # p) # ps))"

definition digitVal :: "char \<Rightarrow> nat option" where
  "digitVal c = map_of (zip ''0123456789'' [0, 1, 2, 3, 4, 5, 6, 7, 8, 9]) c"

text \<open>
  \<^verbatim>\<open>strconv.ParseUint(s, 10, 64)\<close>: decimal digits only, at least one, and a value below
  \<open>2 ^ 64 = 18446744073709551616\<close>; \<open>None\<close> when it returns an error.
\<close>

fun digitsVal :: "nat \<Rightarrow> string \<Rightarrow> nat option" where
  "digitsVal acc [] = Some acc"
| "digitsVal acc (c # cs) =
     (case digitVal c of None \<Rightarrow> None | Some d \<Rightarrow> digitsVal (10 * acc + d) cs)"

definition ParseUint :: "string \<Rightarrow> nat option" where
  "ParseUint s =
     (if s = [] then None
      else (case digitsVal 0 s of
              None \<Rightarrow> None
            | Some n \<Rightarrow> if n < 18446744073709551616 then Some n else None))"

text \<open>
  The configuration \<^verbatim>\<open>*ini.File\<close>, by the calls the code makes on it: \<^verbatim>\<open>cfg.GetSection\<close>
  (\<open>None\<close> when it returns an error), \<^verbatim>\<open>cfg.Section\<close>, \<^verbatim>\<open>sec.Key(k).String()\<close> and
  \<^verbatim>\<open>sec.Key(k).Uint()\<close> (\<open>None\<close> when it returns an error). \<open>'sec\<close> is the type of a section.
\<close>

record 'sec ini_File =
  GetSection :: "string \<Rightarrow> 'sec option"
  Section :: "string \<Rightarrow> 'sec"
  KeyString :: "'sec \<Rightarrow> string \<Rightarrow> string"
  KeyUint :: "'sec \<Rightarrow> string \<Rightarrow> nat option"

text \<open>
  \<^verbatim>\<open>Key.MustString(defaultVal)\<close> and \<^verbatim>\<open>Key.MustUint(defaultVal)\<close> of the ini library: the
  default stands in for an empty value and for a value that is no unsigned number.
\<close>

definition MustString :: "'sec ini_File \<Rightarrow> 'sec \<Rightarrow> string \<Rightarrow> string \<Rightarrow> string" where
  "MustString cfg sec k defaultVal =
     (if KeyString cfg sec k = [] then defaultVal else KeyString cfg sec k)"

definition MustUint :: "'sec ini_File \<Rightarrow> 'sec \<Rightarrow> string \<Rightarrow> nat \<Rightarrow> nat" where
  "MustUint cfg sec k defaultVal =
     (case KeyUint cfg sec k of None \<Rightarrow> defaultVal | Some n \<Rightarrow> n)"

text \<open>
  The first block of \<^verbatim>\<open>formExporterDSN\<close>: host and port of the target. The port is a
  \<^verbatim>\<open>uint\<close>, taken to have 64 bits, so the conversion from \<^verbatim>\<open>uint64\<close> changes nothing; 0
  stands for no port.
\<close>

definition parseTarget :: "string \<Rightarrow> error + (string \<times> nat)" where
  "parseTarget target =
     (if target \<noteq> [] then
        (case Split target CHR '':'' of
           [] \<Rightarrow> Inr ([], 0)
         | [host] \<Rightarrow> Inr (host, 0)
         | host # p # _ \<Rightarrow>
             (case ParseUint p of
                None \<Rightarrow> Inl (ErrorString (''invalid port '' @ p))
              | Some port \<Rightarrow> Inr (host, port)))
      else Inr ([], 0))"

definition sectionName :: "string \<Rightarrow> string" where
  "sectionName module =
     (if module = [] \<or> module = ''default'' then ''client'' else ''client.'' @ module)"

definition formExporterDSN :: "string \<Rightarrow> string \<Rightarrow> 'sec ini_File \<Rightarrow> error + string" where
  "formExporterDSN target module cfg =
     (case parseTarget target of
        Inl e \<Rightarrow> Inl e
      | Inr (host0, port0) \<Rightarrow>
          (let section = sectionName module in
           case GetSection cfg section of
             None \<Rightarrow> Inl (ErrorString (''didn't find section ['' @ section @ ''] in config''))
           | Some client \<Rightarrow>
               (let host = (if host0 = []
                            then MustString cfg (Section cfg ''client'') ''host'' ''localhost''
                            else host0);
                    port = (if port0 = 0
                            then MustUint cfg (Section cfg ''client'') ''port'' 3306
                            else port0);
                    user = KeyString cfg client ''user'';
                    password = KeyString cfg client ''password''
                in if user = [] \<or> password = []
                   then Inl (ErrorString (''no user or password specified under ['' @ section @
                               ''] in config''))
                   else Inr (''dm://'' @ user @ '':'' @ password @ ''@'' @ host @ '':'' @
                               FormatUint port @ ''?autoCommit=true''))))"

section \<open>A concrete library and configuration for the examples\<close>

text \<open>
  The examples below run the model on ASCII inputs. On these the following functions
  compute what the Go functions compute: lower-casing of the letters A to Z, trimming of
  the ASCII white space, numbers written as decimal digits (\<^verbatim>\<open>strconv.ParseFloat\<close> and
  \<^verbatim>\<open>strconv.Atoi\<close> accept more than that; the examples use digit strings and strings that
  are no number in any notation), and the Prometheus client's legacy rules for metric and
  label names. A value of another dynamic type is given by the text \<^verbatim>\<open>%v\<close> prints for it.
  A map is ranged over in the order of a list of keys.
\<close>

definition asciiLower :: "char \<Rightarrow> char" where
  "asciiLower c =
     (case map_of (zip ''ABCDEFGHIJKLMNOPQRSTUVWXYZ'' ''abcdefghijklmnopqrstuvwxyz'') c of
        None \<Rightarrow> c
      | Some l \<Rightarrow> l)"

definition isSpace :: "char \<Rightarrow> bool" where
  "isSpace c = (c \<in> set [CHR '' '', CHR 0x09, CHR 0x0A, CHR 0x0B, CHR 0x0C, CHR 0x0D])"

definition asciiTrimSpace :: "string \<Rightarrow> string" where
  "asciiTrimSpace s = rev (dropWhile isSpace (rev (dropWhile isSpace s)))"

definition parseDigits :: "string \<Rightarrow> int option" where
  "parseDigits s = (if s = [] then None else map_option int (digitsVal 0 s))"

definition nameChars :: string where
  "nameChars = ''abcdefghijklmnopqrstuvwxyzABCDEFGHIJKLMNOPQRSTUVWXYZ_''"

definition validMetricName :: "string \<Rightarrow> bool" where
  "validMetricName s =
     (case s of
        [] \<Rightarrow> False
      | c # cs \<Rightarrow> c \<in> set (nameChars @ '':'') \<and>
                 list_all (\<lambda>x. x \<in> set (nameChars @ '':0123456789'')) cs)"

definition validLabelName :: "string \<Rightarrow> bool" where
  "validLabelName s =
     (case s of
        [] \<Rightarrow> False
      | c # cs \<Rightarrow> c \<in> set nameChars \<and> list_all (\<lambda>x. x \<in> set (nameChars @ ''0123456789'')) cs \<and>
                 take 2 s \<noteq> ''__'')"

definition legacyMetricError :: "string \<Rightarrow> string \<Rightarrow> string list \<Rightarrow> string list \<Rightarrow> string option" where
  "legacyMetricError name hlp labels lvs =
     (if \<not> validMetricName name then Some (name @ '' is not a valid metric name'')
      else if \<not> list_all validLabelName labels then Some ''invalid label name''
      else if \<not> distinct labels then Some ''duplicate label names''
      else if length lvs \<noteq> length labels then Some ''inconsistent label cardinality''
      else None)"

definition rangeOver :: "string list \<Rightarrow> (string \<rightharpoonup> string) \<Rightarrow> (string \<times> string) list" where
  "rangeOver keys m = List.map_filter (\<lambda>k. map_option (Pair k) (m k)) keys"

definition asciiLib :: "string list \<Rightarrow> (int, string) golib" where
  "asciiLib keys =
     \<lparr>ToLower = map asciiLower, TrimSpace = asciiTrimSpace, ParseFloat = parseDigits,
      Atoi = parseDigits, Sprint_other = (\<lambda>s. s), constMetricError = legacyMetricError,
      mapRange = (\<lambda>n. rangeOver keys)\<rparr>"

text \<open>
  A configuration file given by its sections, each a list of keys and values, with plain
  decimal numbers.
\<close>

definition iniFile :: "(string \<times> (string \<times> string) list) list \<Rightarrow> (string \<times> string) list ini_File" where
  "iniFile secs =
     \<lparr>GetSection = map_of secs,
      Section = (\<lambda>name. case map_of secs name of None \<Rightarrow> [] | Some sec \<Rightarrow> sec),
      KeyString = (\<lambda>sec k. case map_of sec k of None \<Rightarrow> [] | Some v \<Rightarrow> v),
      KeyUint = (\<lambda>sec k. ParseUint (case map_of sec k of None \<Rightarrow> [] | Some v \<Rightarrow> v))\<rparr>"

text \<open>
  A definition with two value columns, and a row in which the first parses (with white
  space around it) and the second holds the text of a NULL.
\<close>

definition exampleDesc :: "(string \<times> string) list" where
  "exampleDesc = [(''value'', ''Generic counter''), (''bad'', ''Other'')]"

definition exampleRow :: "(string \<times> string) list" where
  "exampleRow = [(''value'', '' 42 ''), (''bad'', ''<nil>''), (''name'', ''Buffer Pool (MB)'')]"

definition exampleLib :: "(int, string) golib" where
  "exampleLib = asciiLib [''value'', ''bad'']"




text \<open>
  A database that answers five queries: one runs into the deadline, one is refused, one
  has no rows, one loses the connection after its first row, and any other returns one
  row.
\<close>

definition exampleDb :: "string \<Rightarrow> string QueryOutcome" where
  "exampleDb query =
     (if query = ''SELECT slow'' then
        \<lparr>ctxErr = Some DeadlineExceeded, queried = Inl ''context deadline exceeded''\<rparr>
      else if query = ''SELECT broken'' then
        \<lparr>ctxErr = None, queried = Inl ''syntax error''\<rparr>
      else if query = ''SELECT empty'' then
        \<lparr>ctxErr = None, queried = Inr \<lparr>Columns = [''VALUE''], delivered = [], Err = None\<rparr>\<rparr>
      else if query = ''SELECT cut'' then
        \<lparr>ctxErr = None,
         queried = Inr \<lparr>Columns = [''VALUE''], delivered = [Inr [VInt64 42]],
                        Err = Some ''connection lost''\<rparr>\<rparr>
      else
        \<lparr>ctxErr = None,
         queried = Inr \<lparr>Columns = [''VALUE''], delivered = [Inr [VString '' 42 '']],
                        Err = None\<rparr>\<rparr>)"

text \<open>
  Two configuration files with the section \<open>client\<close> only: one with credentials, one with
  a host and a port and no credentials.
\<close>

definition exampleConfig :: "(string \<times> string) list ini_File" where
  "exampleConfig =
     iniFile [(''client'', [(''host'', ''x''), (''port'', ''1''), (''user'', ''SYSDBA''),
                            (''password'', ''secret'')])]"

definition hostPortConfig :: "(string \<times> string) list ini_File" where
  "hostPortConfig = iniFile [(''client'', [(''host'', ''x''), (''port'', ''1'')])]"

text \<open>
  A cycle in which nothing has happened yet, and three definitions: one without value
  columns that ignores an empty result, one whose query returns a value, and one whose
  query the database refuses.
\<close>

definition emptyCycle :: "int cycle" where
  "emptyCycle = \<lparr>err = None, ch = [], scrapeErrors = (\<lambda>c. 0), errlog = []\<rparr>"

definition noDescMetric :: Metric where
  "noDescMetric =
     \<lparr>Context = ''sessions'', Labels = [], MetricsDesc = Map.empty, MetricsType = Map.empty,
      FieldToAppend = [], Request = ''SELECT value'', IgnoreZeroResult = True\<rparr>"

definition valueMetric :: Metric where
  "valueMetric =
     \<lparr>Context = ''sessions'', Labels = [], MetricsDesc = map_of exampleDesc,
      MetricsType = Map.empty, FieldToAppend = [], Request = ''SELECT value'',
      IgnoreZeroResult = False\<rparr>"

definition brokenMetric :: Metric where
  "brokenMetric =
     \<lparr>Context = ''broken'', Labels = [], MetricsDesc = map_of exampleDesc,
      MetricsType = Map.empty, FieldToAppend = [], Request = ''SELECT broken'',
      IgnoreZeroResult = False\<rparr>"

text \<open>
  A database on which the deadline of one query expires only after the query has started,
  before its first row is read, and which refuses every other query with an error of its
  own whose text is that of the code's time-out.
\<close>

definition lateDb :: "string \<Rightarrow> string QueryOutcome" where
  "lateDb query =
     (if query = ''SELECT late'' then
        \<lparr>ctxErr = None,
         queried = Inr \<lparr>Columns = [''VALUE''], delivered = [],
                        Err = Some ''context deadline exceeded''\<rparr>\<rparr>
      else
        \<lparr>ctxErr = None, queried = Inl ''DM query timed out''\<rparr>)"

section \<open>Notions used in the statements\<close>

text \<open>
  \<open>isRange es m\<close>: the list \<open>es\<close> holds the entries of the map \<open>m\<close>, each key once; this is
  what a \<^verbatim>\<open>range\<close> loop over \<open>m\<close> visits, in some order.
\<close>

definition isRange :: "(string \<times> string) list \<Rightarrow> (string \<rightharpoonup> string) \<Rightarrow> bool" where
  "isRange es m = (distinct (map fst es) \<and> map_of es = m)"

text \<open>
  \<open>parsedEntries L row es\<close>: the value columns among \<open>es\<close> whose text in the row, trimmed,
  parses as a float, each with its help text and the parsed value, in the order of \<open>es\<close>.
\<close>

definition parsedEntries ::
  "('f, 'o) golib \<Rightarrow> (string \<rightharpoonup> string) \<Rightarrow> (string \<times> string) list \<Rightarrow> (string \<times> string \<times> 'f) list" where
  "parsedEntries L row es =
     List.map_filter
       (\<lambda>(metric, metricHelp).
          map_option (\<lambda>v. (metric, metricHelp, v)) (ParseFloat L (TrimSpace L (index row metric))))
       es"

text \<open>
  \<open>unparsedEntries L row es\<close>: the value columns among \<open>es\<close> whose text in the row, trimmed,
  does not parse as a float, in the order of \<open>es\<close>; and the line the code logs for such a
  column, with the text as the row has it.
\<close>

definition unparsedEntries ::
  "('f, 'o) golib \<Rightarrow> (string \<rightharpoonup> string) \<Rightarrow> (string \<times> string) list \<Rightarrow> (string \<times> string) list" where
  "unparsedEntries L row es =
     filter (\<lambda>(metric, metricHelp). ParseFloat L (TrimSpace L (index row metric)) = None) es"

definition unableToConvert :: "(string \<rightharpoonup> string) \<Rightarrow> string \<times> string \<Rightarrow> log_event" where
  "unableToConvert row e = UnableToConvert (fst e) (snd e) (index row (fst e))"

section \<open>The loop over the value columns\<close>

lemma parsedEntries_Nil: "parsedEntries L row [] = []"
  by (simp add: parsedEntries_def map_filter_simps)

lemma parsedEntries_Cons:
  "parsedEntries L row ((metric, metricHelp) # es) =
     (case ParseFloat L (TrimSpace L (index row metric)) of
        None \<Rightarrow> parsedEntries L row es
      | Some v \<Rightarrow> (metric, metricHelp, v) # parsedEntries L row es)"
  by (simp add: parsedEntries_def map_filter_simps split: option.splits)

lemma valuesLoop_Inr:
  "valuesLoop L context labels metricsType fieldToAppend lvs row es s = Inr s' \<Longrightarrow>
   \<exists>xs. sent s' = sent s @ xs \<and> metricsCount s' = metricsCount s + length xs \<and>
        ranged s' = ranged s \<and>
        logged s' = logged s @ map (unableToConvert row) (unparsedEntries L row es) \<and>
        list_all2 (\<lambda>x (metric, metricHelp, v).
            newSample L context labels metricsType fieldToAppend lvs row metric metricHelp v = Inr x)
          xs (parsedEntries L row es)"
proof (induction es arbitrary: s)
  case Nil
  then show ?case by (simp add: parsedEntries_Nil unparsedEntries_def)
next
  case (Cons e es)
  obtain metric metricHelp where e: "e = (metric, metricHelp)" by (cases e)
  show ?case
  proof (cases "ParseFloat L (TrimSpace L (index row metric))")
    case None
    with Cons.prems e have
      "valuesLoop L context labels metricsType fieldToAppend lvs row es
         (s\<lparr>logged := logged s @ [UnableToConvert metric metricHelp (index row metric)]\<rparr>) = Inr s'"
      by simp
    from Cons.IH [OF this] None e show ?thesis
      by (simp add: parsedEntries_Cons unparsedEntries_def unableToConvert_def)
  next
    case (Some v)
    with Cons.prems e obtain x where
      x: "newSample L context labels metricsType fieldToAppend lvs row metric metricHelp v = Inr x"
      and rest: "valuesLoop L context labels metricsType fieldToAppend lvs row es
         (s\<lparr>sent := sent s @ [x], metricsCount := Suc (metricsCount s)\<rparr>) = Inr s'"
      by (auto split: sum.splits)
    from Cons.IH [OF rest] obtain xs where
      xs: "sent s' = sent s @ [x] @ xs" "metricsCount s' = Suc (metricsCount s) + length xs"
        "ranged s' = ranged s"
        "logged s' = logged s @ map (unableToConvert row) (unparsedEntries L row es)"
        "list_all2 (\<lambda>x (metric, metricHelp, v).
            newSample L context labels metricsType fieldToAppend lvs row metric metricHelp v = Inr x)
          xs (parsedEntries L row es)"
      by auto
    show ?thesis
      by (rule exI [of _ "x # xs"])
        (use xs x Some e in \<open>simp add: parsedEntries_Cons unparsedEntries_def\<close>)
  qed
qed

lemma valuesLoop_returns:
  "\<forall>(metric, metricHelp, v) \<in> set (parsedEntries L row es).
      \<exists>x. newSample L context labels metricsType fieldToAppend lvs row metric metricHelp v = Inr x \<Longrightarrow>
   \<exists>s'. valuesLoop L context labels metricsType fieldToAppend lvs row es s = Inr s'"
proof (induction es arbitrary: s)
  case Nil
  then show ?case by simp
next
  case (Cons e es)
  obtain metric metricHelp where e: "e = (metric, metricHelp)" by (cases e)
  show ?case
  proof (cases "ParseFloat L (TrimSpace L (index row metric))")
    case None
    with Cons.prems e have
      "\<forall>(metric, metricHelp, v) \<in> set (parsedEntries L row es).
        \<exists>x. newSample L context labels metricsType fieldToAppend lvs row metric metricHelp v = Inr x"
      by (simp add: parsedEntries_Cons)
    from Cons.IH [OF this] None e show ?thesis by simp
  next
    case (Some v)
    with Cons.prems e have
      rest: "\<forall>(metric, metricHelp, v) \<in> set (parsedEntries L row es).
        \<exists>x. newSample L context labels metricsType fieldToAppend lvs row metric metricHelp v = Inr x"
      and "\<exists>x. newSample L context labels metricsType fieldToAppend lvs row metric metricHelp v = Inr x"
      by (simp_all add: parsedEntries_Cons)
    then obtain x where
      x: "newSample L context labels metricsType fieldToAppend lvs row metric metricHelp v = Inr x"
      by blast
    from Cons.IH [OF rest] x Some e show ?thesis by simp
  qed
qed

lemma newSample_Inr:
  assumes "newSample L context labels metricsType fieldToAppend lvs row metric metricHelp v = Inr x"
  shows "val x = v" and "helpText x = metricHelp"
    and "GetMetricType L metric metricsType = Inr (sampleType x)"
    and "fieldToAppend = [] \<Longrightarrow> fqName x = BuildFQName namespace context metric"
    and "fieldToAppend = [] \<Longrightarrow> variableLabels x = labels"
    and "fieldToAppend = [] \<Longrightarrow> labelValues x = lvs"
    and "fieldToAppend \<noteq> [] \<Longrightarrow>
           fqName x = BuildFQName namespace context (cleanName L (index row fieldToAppend))"
    and "fieldToAppend \<noteq> [] \<Longrightarrow> variableLabels x = []"
    and "fieldToAppend \<noteq> [] \<Longrightarrow> labelValues x = []"
  using assms
  by (auto simp: newSample_def MustNewConstMetric_def split: if_splits sum.splits option.splits)

lemma BuildFQName_joined:
  "context \<noteq> [] \<Longrightarrow> name \<noteq> [] \<Longrightarrow>
   BuildFQName namespace context name = ''dmdb_'' @ context @ ''_'' @ name"
  by (simp add: BuildFQName_def namespace_def)

lemma parsedEntries_keys: "(metric, hlp, v) \<in> set (parsedEntries L row es) \<Longrightarrow>
   (metric, hlp) \<in> set es \<and> ParseFloat L (TrimSpace L (index row metric)) = Some v"
  by (induction es) (auto simp: parsedEntries_Nil parsedEntries_Cons split: option.splits)

lemma parsedEntries_count:
  "distinct (map fst es) \<Longrightarrow> map_of es metric = Some hlp \<Longrightarrow>
   ParseFloat L (TrimSpace L (index row metric)) = Some v \<Longrightarrow>
   count_list (parsedEntries L row es) (metric, hlp, v) = 1"
proof (induction es)
  case Nil
  then show ?case by simp
next
  case (Cons e es)
  obtain m h where e: "e = (m, h)" by (cases e)
  show ?case
  proof (cases "m = metric")
    case True
    with Cons.prems e have h: "h = hlp" and notin: "metric \<notin> fst ` set es" by auto
    have "(metric, hlp, v) \<notin> set (parsedEntries L row es)"
      using notin parsedEntries_keys [of metric hlp v L row es] by force
    then have "count_list (parsedEntries L row es) (metric, hlp, v) = 0"
      by (simp add: count_list_0_iff)
    with True h e Cons.prems show ?thesis by (simp add: parsedEntries_Cons)
  next
    case False
    with Cons.prems e have "count_list (parsedEntries L row es) (metric, hlp, v) = 1"
      using Cons.IH by simp
    with False e show ?thesis by (simp add: parsedEntries_Cons split: option.splits)
  qed
qed

section \<open>Metric Translator: one row\<close>

text \<open>
  C1, as amended. Take a row and the order in which the loop visits the value columns of
  the definition. If for every value column whose trimmed text parses as a float the
  sample can be built (\<^verbatim>\<open>GetMetricType\<close> resolves the column's kind and the Prometheus
  client accepts the descriptor and the label values), then the closure returns without
  error and has sent exactly one sample for each such column, in the order visited, whose
  value is the parsed float: a column that parses occurs once among the columns that
  produced a sample, a column that does not parse does not occur, and the samples of the
  other columns are sent all the same. For each column that does not parse, and for no
  other, the closure has logged one line with the column, its help text and the text that
  failed to parse.
\<close>

theorem genericParser_one_sample_per_parsed_column:
  assumes range: "isRange (mapRange L (ranged s) metricsDesc) metricsDesc"
    and accepted: "\<forall>(metric, metricHelp, v) \<in> set (parsedEntries L row (mapRange L (ranged s) metricsDesc)).
        \<exists>x. newSample L context labels metricsType fieldToAppend (map (index row) labels) row
               metric metricHelp v = Inr x"
  shows "\<exists>s' xs.
      genericParser L context labels metricsDesc metricsType fieldToAppend row s = Inr (None, s') \<and>
      sent s' = sent s @ xs \<and>
      list_all2 (\<lambda>x (metric, metricHelp, v). val x = v \<and> helpText x = metricHelp) xs
        (parsedEntries L row (mapRange L (ranged s) metricsDesc)) \<and>
      logged s' = logged s @
        map (unableToConvert row) (unparsedEntries L row (mapRange L (ranged s) metricsDesc)) \<and>
      (\<forall>metric metricHelp. metricsDesc metric = Some metricHelp \<longrightarrow>
         (case ParseFloat L (TrimSpace L (index row metric)) of
            Some v \<Rightarrow>
              count_list (parsedEntries L row (mapRange L (ranged s) metricsDesc))
                (metric, metricHelp, v) = 1
          | None \<Rightarrow> metric \<notin> fst ` set (parsedEntries L row (mapRange L (ranged s) metricsDesc))))"
proof -
  let ?es = "mapRange L (ranged s) metricsDesc"
  let ?lvs = "map (index row) labels"
  from valuesLoop_returns [OF accepted] obtain s' where
    run: "valuesLoop L context labels metricsType fieldToAppend ?lvs row ?es
            (s\<lparr>ranged := Suc (ranged s)\<rparr>) = Inr s'"
    by blast
  from valuesLoop_Inr [OF run] obtain xs where
    xs: "sent s' = sent s @ xs"
    and lg: "logged s' = logged s @ map (unableToConvert row) (unparsedEntries L row ?es)"
    and all: "list_all2 (\<lambda>x (metric, metricHelp, v).
            newSample L context labels metricsType fieldToAppend ?lvs row metric metricHelp v = Inr x)
          xs (parsedEntries L row ?es)"
    by auto
  have vals: "list_all2 (\<lambda>x (metric, metricHelp, v). val x = v \<and> helpText x = metricHelp) xs
        (parsedEntries L row ?es)"
    by (rule list_all2_mono [OF all]) (auto dest: newSample_Inr(1,2))
  have each: "case ParseFloat L (TrimSpace L (index row metric)) of
            Some v \<Rightarrow> count_list (parsedEntries L row ?es) (metric, metricHelp, v) = 1
          | None \<Rightarrow> metric \<notin> fst ` set (parsedEntries L row ?es)"
    if "metricsDesc metric = Some metricHelp" for metric metricHelp
  proof (cases "ParseFloat L (TrimSpace L (index row metric))")
    case None
    then show ?thesis using parsedEntries_keys [of metric _ _ L row ?es] by force
  next
    case (Some v)
    from range that have "distinct (map fst ?es)" "map_of ?es metric = Some metricHelp"
      by (simp_all add: isRange_def)
    from parsedEntries_count [OF this Some] Some show ?thesis by simp
  qed
  from run xs vals lg each show ?thesis
    by (auto simp: genericParser_def Let_def)
qed

lemma exampleLib_range: "mapRange exampleLib n (map_of exampleDesc) = exampleDesc"
  by code_simp

lemma example_parsed:
  "parsedEntries exampleLib (map_of exampleRow) exampleDesc = [(''value'', ''Generic counter'', 42)]"
  by code_simp

lemma example_newSample:
  "newSample exampleLib ''sessions'' [''name''] [''value'' \<mapsto> ''counter''] []
     [index (map_of exampleRow) ''name''] (map_of exampleRow) ''value'' ''Generic counter'' 42 =
   Inr \<lparr>fqName = ''dmdb_sessions_value'', helpText = ''Generic counter'',
        variableLabels = [''name''], sampleType = CounterValue, val = 42,
        labelValues = [''Buffer Pool (MB)'']\<rparr>"
  by code_simp

lemma example_unparsed:
  "map (unableToConvert (map_of exampleRow))
     (unparsedEntries exampleLib (map_of exampleRow) exampleDesc) =
   [UnableToConvert ''bad'' ''Other'' ''<nil>'']"
  by code_simp

theorem genericParser_one_sample_per_parsed_column_witness:
  "isRange (mapRange exampleLib (ranged initial) (map_of exampleDesc)) (map_of exampleDesc) \<and>
   (\<exists>s'. genericParser exampleLib ''sessions'' [''name''] (map_of exampleDesc)
           [''value'' \<mapsto> ''counter''] [] (map_of exampleRow) initial = Inr (None, s') \<and>
         map val (sent s') = [42] \<and>
         logged s' = [UnableToConvert ''bad'' ''Other'' ''<nil>''])"
proof -
  have range: "isRange (mapRange exampleLib (ranged initial) (map_of exampleDesc)) (map_of exampleDesc)"
    by (simp add: exampleLib_range isRange_def) (simp add: exampleDesc_def)
  have accepted:
    "\<forall>(metric, metricHelp, v) \<in> set (parsedEntries exampleLib (map_of exampleRow)
          (mapRange exampleLib (ranged initial) (map_of exampleDesc))).
        \<exists>x. newSample exampleLib ''sessions'' [''name''] [''value'' \<mapsto> ''counter''] []
               (map (index (map_of exampleRow)) [''name'']) (map_of exampleRow)
               metric metricHelp v = Inr x"
    by (simp only: exampleLib_range example_parsed) (simp add: example_newSample)
  from genericParser_one_sample_per_parsed_column [OF range accepted] range
  show ?thesis
    by (simp only: exampleLib_range example_parsed example_unparsed)
       (auto simp: list_all2_Cons2 initial_def)
qed

text \<open>
  C1 as the specification states it fails: the column \<open>value\<close> of the row parses as the
  float 42, but its kind is the unknown token \<open>histogram\<close>, so \<^verbatim>\<open>GetMetricType\<close> panics
  and no sample is sent for the column.
\<close>

theorem genericParser_parsed_column_panics:
  "ParseFloat exampleLib (TrimSpace exampleLib (index (map_of exampleRow) ''value'')) = Some 42 \<and>
   genericParser exampleLib ''sessions'' [''name''] (map_of exampleDesc)
     [''value'' \<mapsto> ''histogram''] [] (map_of exampleRow) initial =
   Inl (Panic (ErrorString ''Error while getting prometheus type histogram''))"
  by code_simp






section \<open>Row Normalizer\<close>

lemma fold_upd_map_of:
  "fold (\<lambda>(k, v) m. m(f k \<mapsto> g v)) ps m0 = m0 ++ map_of (rev (map (\<lambda>(k, v). (f k, g v)) ps))"
  by (induction ps rule: rev_induct) (auto simp: case_prod_beta map_add_def fun_eq_iff)

lemma map_of_rev_last:
  "i < length ps \<Longrightarrow> \<forall>j. i < j \<and> j < length ps \<longrightarrow> fst (ps ! j) \<noteq> fst (ps ! i) \<Longrightarrow>
   map_of (rev ps) (fst (ps ! i)) = Some (snd (ps ! i))"
proof (induction ps rule: rev_induct)
  case Nil
  then show ?case by simp
next
  case (snoc q qs)
  show ?case
  proof (cases "i = length qs")
    case True
    then show ?thesis by simp
  next
    case False
    with snoc.prems(1) have i: "i < length qs" by simp
    from snoc.prems(2) i have "fst ((qs @ [q]) ! length qs) \<noteq> fst ((qs @ [q]) ! i)"
      by (metis length_append_singleton lessI)
    with i have ne: "fst q \<noteq> fst (qs ! i)" by (simp add: nth_append)
    have "\<forall>j. i < j \<and> j < length qs \<longrightarrow> fst (qs ! j) \<noteq> fst (qs ! i)"
    proof (intro allI impI)
      fix j assume j: "i < j \<and> j < length qs"
      with snoc.prems(2) have "fst ((qs @ [q]) ! j) \<noteq> fst ((qs @ [q]) ! i)" by simp
      with j i show "fst (qs ! j) \<noteq> fst (qs ! i)" by (simp add: nth_append)
    qed
    from snoc.IH [OF i this] ne i show ?thesis by (simp add: nth_append)
  qed
qed

text \<open>
  C3, as amended. For a row scanned into as many values as there are columns, the keys of
  the map are the lower-cased column names; the value under a lower-cased column name is
  the \<^verbatim>\<open>%v\<close> text of that column's native value (of the last such column, when several
  columns have the same lower-cased name); and the text of a NULL is \<open><nil>\<close>, not the
  empty string.
\<close>

theorem rowMap_normalizes:
  assumes "length columns = length cols"
  shows "dom (rowMap L cols columns) = ToLower L ` set cols \<and>
     (\<forall>i < length cols.
        (\<forall>j. i < j \<and> j < length cols \<longrightarrow> ToLower L (cols ! j) \<noteq> ToLower L (cols ! i)) \<longrightarrow>
        rowMap L cols columns (ToLower L (cols ! i)) = Some (Sprintf_v L (columns ! i))) \<and>
     (\<forall>i < length cols. columns ! i = VNil \<longrightarrow> Sprintf_v L (columns ! i) = ''<nil>'')"
proof -
  define ps where "ps = map (\<lambda>(k, v). (ToLower L k, Sprintf_v L v)) (zip cols columns)"
  have rm: "rowMap L cols columns = map_of (rev ps)"
    by (simp add: rowMap_def ps_def fold_upd_map_of)
  have len: "length ps = length cols" using assms by (simp add: ps_def)
  have nth: "ps ! i = (ToLower L (cols ! i), Sprintf_v L (columns ! i))" if "i < length cols" for i
    using that assms by (simp add: ps_def)
  have "fst ` set ps = ToLower L ` set cols"
  proof -
    have "map fst ps = map (ToLower L) (map fst (zip cols columns))"
      by (simp add: ps_def case_prod_beta)
    also have "map fst (zip cols columns) = cols" using assms by simp
    finally have "set (map fst ps) = set (map (ToLower L) cols)" by simp
    then show ?thesis by simp
  qed
  then have d: "dom (rowMap L cols columns) = ToLower L ` set cols"
    by (simp add: rm dom_map_of_conv_image_fst)
  have v: "rowMap L cols columns (ToLower L (cols ! i)) = Some (Sprintf_v L (columns ! i))"
    if i: "i < length cols"
      and last: "\<forall>j. i < j \<and> j < length cols \<longrightarrow> ToLower L (cols ! j) \<noteq> ToLower L (cols ! i)"
    for i
  proof -
    from i len have "i < length ps" by simp
    moreover have "\<forall>j. i < j \<and> j < length ps \<longrightarrow> fst (ps ! j) \<noteq> fst (ps ! i)"
      using last i len by (simp add: nth)
    ultimately have "map_of (rev ps) (fst (ps ! i)) = Some (snd (ps ! i))"
      by (rule map_of_rev_last)
    with i show ?thesis by (simp add: rm nth)
  qed
  from d v show ?thesis by (simp add: Sprintf_v_def)
qed

theorem rowMap_normalizes_witness:
  "length [VInt64 7, VNil :: string Value] = length [''ID'', ''NOTE''] \<and>
   rowMap exampleLib [''ID'', ''NOTE''] [VInt64 7, VNil] ''id'' = Some ''7'' \<and>
   rowMap exampleLib [''ID'', ''NOTE''] [VInt64 7, VNil] ''note'' = Some ''<nil>''"
proof -
  have l: "ToLower exampleLib ''ID'' = ''id''" "ToLower exampleLib ''NOTE'' = ''note''"
    by code_simp+
  have f: "FormatUint 7 = ''7''"
    by code_simp
  have len: "length [VInt64 7, VNil :: string Value] = length [''ID'', ''NOTE'']"
    by simp
  note T = rowMap_normalizes [OF len, of exampleLib, THEN conjunct2, THEN conjunct1,
      THEN spec, THEN mp, THEN mp]
  have "rowMap exampleLib [''ID'', ''NOTE''] [VInt64 7, VNil]
          (ToLower exampleLib ([''ID'', ''NOTE''] ! 0)) =
        Some (Sprintf_v exampleLib ([VInt64 7, VNil] ! 0))"
    by (rule T) (auto simp: less_Suc_eq l)
  moreover have "rowMap exampleLib [''ID'', ''NOTE''] [VInt64 7, VNil]
          (ToLower exampleLib ([''ID'', ''NOTE''] ! 1)) =
        Some (Sprintf_v exampleLib ([VInt64 7, VNil] ! 1))"
    by (rule T) auto
  ultimately show ?thesis
    by (simp add: l f Sprintf_v_def)
qed

text \<open>
  C3 as the specification states it fails: the NULL in the column \<open>NOTE\<close> is mapped to
  the text \<open><nil>\<close>, which is not the empty string.
\<close>

theorem rowMap_null_is_not_empty:
  "index (rowMap exampleLib [''ID'', ''NOTE''] [VInt64 7, VNil]) ''note'' = ''<nil>'' \<and>
   index (rowMap exampleLib [''ID'', ''NOTE''] [VInt64 7, VNil]) ''note'' \<noteq> []"
  by code_simp

section \<open>The whole scrape of one definition\<close>

lemma genericParser_count:
  assumes "genericParser L context labels metricsDesc metricsType fieldToAppend row s = Inr (e, s')"
  shows "e = None" and "metricsCount s' - length (sent s') = metricsCount s - length (sent s)"
    and "metricsCount s = length (sent s) \<Longrightarrow> metricsCount s' = length (sent s')"
proof -
  from assms have e: "e = None"
    and run: "valuesLoop L context labels metricsType fieldToAppend (map (index row) labels) row
            (mapRange L (ranged s) metricsDesc) (s\<lparr>ranged := Suc (ranged s)\<rparr>) = Inr s'"
    by (auto simp: genericParser_def Let_def split: sum.splits)
  from valuesLoop_Inr [OF run] obtain xs where
    "sent s' = sent s @ xs" "metricsCount s' = metricsCount s + length xs"
    by auto
  then show "metricsCount s' - length (sent s') = metricsCount s - length (sent s)"
    and "metricsCount s = length (sent s) \<Longrightarrow> metricsCount s' = length (sent s')"
    by simp_all
  from e show "e = None" .
qed

lemma rowsLoop_count:
  "rowsLoop L (genericParser L context labels metricsDesc metricsType fieldToAppend) cols rs s
     = Inr (e, s') \<Longrightarrow>
   metricsCount s = length (sent s) \<Longrightarrow> metricsCount s' = length (sent s')"
proof (induction rs arbitrary: s)
  case Nil
  then show ?case by simp
next
  case (Cons r rs)
  show ?case
  proof (cases "Scan cols r")
    case (Inl x)
    with Cons.prems show ?thesis by simp
  next
    case (Inr columns)
    with Cons.prems obtain e1 s1 where
      step: "genericParser L context labels metricsDesc metricsType fieldToAppend
               (rowMap L cols columns) s = Inr (e1, s1)"
      by (auto split: sum.splits)
    from genericParser_count(1,3) [OF step] Cons.prems(2)
    have e1: "e1 = None" and inv: "metricsCount s1 = length (sent s1)" by simp_all
    from Cons.prems(1) Inr step e1 have
      "rowsLoop L (genericParser L context labels metricsDesc metricsType fieldToAppend)
         cols rs s1 = Inr (e, s')"
      by simp
    from Cons.IH [OF this inv] show ?thesis .
  qed
qed

lemma rowsLoop_timeout_text:
  "rowsLoop L (genericParser L context labels metricsDesc metricsType fieldToAppend) cols rs s
     = Inr (Some (ErrorString ''DM query timed out''), s') \<Longrightarrow>
   Inl ''DM query timed out'' \<in> set rs"
proof (induction rs arbitrary: s)
  case Nil
  then show ?case by simp
next
  case (Cons r rs)
  show ?case
  proof (cases "Scan cols r")
    case (Inl x)
    with Cons.prems show ?thesis
      by (auto simp: Scan_def split: sum.splits if_splits)
  next
    case (Inr columns)
    with Cons.prems obtain e1 s1 where
      step: "genericParser L context labels metricsDesc metricsType fieldToAppend
               (rowMap L cols columns) s = Inr (e1, s1)"
      by (auto split: sum.splits)
    from genericParser_count(1) [OF step] have e1: "e1 = None" .
    from Cons.prems(1) Inr step e1 have
      "rowsLoop L (genericParser L context labels metricsDesc metricsType fieldToAppend)
         cols rs s1 = Inr (Some (ErrorString ''DM query timed out''), s')"
      by simp
    from Cons.IH [OF this] show ?thesis by simp
  qed
qed

text \<open>
  C4. When the query and the rows of a scrape went through without error
  (\<^verbatim>\<open>GeneratePrometheusMetrics\<close> returned \<^verbatim>\<open>nil\<close>) and no sample was sent during the whole
  scrape, \<^verbatim>\<open>ScrapeGenericValues\<close> returns the error \<open>No metrics found while parsing\<close> when
  \<^verbatim>\<open>ignoreZeroResult\<close> is false, and no error when it is true.
\<close>

theorem ScrapeGenericValues_zero_result:
  assumes "GeneratePrometheusMetrics L queryTimeout db
             (genericParser L context labels metricsDesc metricsType fieldToAppend) request initial
           = Inr (None, s)"
    and "sent s = []"
  shows "ScrapeGenericValues L queryTimeout db context labels metricsDesc metricsType fieldToAppend
           ignoreZeroResult request =
         Inr (if ignoreZeroResult then None
              else Some (ErrorString ''No metrics found while parsing''), s)"
proof -
  from assms(1) have "metricsCount s = length (sent s)"
    by (auto simp: GeneratePrometheusMetrics_def initial_def
        split: option.splits if_splits sum.splits dest!: rowsLoop_count)
  with assms show ?thesis
    by (simp add: ScrapeGenericValues_def)
qed

lemma example_empty:
  "GeneratePrometheusMetrics exampleLib ''5'' exampleDb
     (genericParser exampleLib ''sessions'' [] (map_of exampleDesc) Map.empty [])
     ''SELECT empty'' initial = Inr (None, initial)"
  by code_simp

theorem ScrapeGenericValues_zero_result_witness:
  "ScrapeGenericValues exampleLib ''5'' exampleDb ''sessions'' [] (map_of exampleDesc) Map.empty []
     False ''SELECT empty'' =
     Inr (Some (ErrorString ''No metrics found while parsing''), initial) \<and>
   ScrapeGenericValues exampleLib ''5'' exampleDb ''sessions'' [] (map_of exampleDesc) Map.empty []
     True ''SELECT empty'' = Inr (None, initial)"
  using ScrapeGenericValues_zero_result [OF example_empty, of False]
    ScrapeGenericValues_zero_result [OF example_empty, of True]
  by (simp add: initial_def)

text \<open>
  C6, as amended. With a timeout option that is a number: when the context's deadline has
  expired by the time \<^verbatim>\<open>db.QueryContext\<close> returns, \<^verbatim>\<open>GeneratePrometheusMetrics\<close> returns
  the error of text \<open>DM query timed out\<close>, whatever the query itself returned. When it
  has not expired by then, the error of a failed query is returned as database/sql handed
  it over; and (for the translator's row handler) an error of text \<open>DM query timed out\<close>
  is then returned only if database/sql itself gave an error of this very text, for the
  query or for the scan of a row. The code gives an error no kind: the time-out differs
  from a failure of the query by its text alone.
\<close>

theorem GeneratePrometheusMetrics_timeout:
  assumes "Atoi L queryTimeout = Some timeout"
  shows
    "(ctxErr (db query) = Some DeadlineExceeded \<longrightarrow>
        GeneratePrometheusMetrics L queryTimeout db parse query s =
          Inr (Some (ErrorString ''DM query timed out''), s)) \<and>
     (ctxErr (db query) \<noteq> Some DeadlineExceeded \<longrightarrow>
        (\<forall>msg. queried (db query) = Inl msg \<longrightarrow>
           GeneratePrometheusMetrics L queryTimeout db parse query s =
             Inr (Some (ErrorString msg), s))) \<and>
     (ctxErr (db query) \<noteq> Some DeadlineExceeded \<longrightarrow>
        (\<forall>s'. GeneratePrometheusMetrics L queryTimeout db
               (genericParser L context labels metricsDesc metricsType fieldToAppend) query s0 =
               Inr (Some (ErrorString ''DM query timed out''), s') \<longrightarrow>
             queried (db query) = Inl ''DM query timed out'' \<or>
             (\<exists>rows. queried (db query) = Inr rows \<and>
                Inl ''DM query timed out'' \<in> set (delivered rows))))"
  using assms
  by (auto simp: GeneratePrometheusMetrics_def split: sum.splits dest: rowsLoop_timeout_text)

lemma example_Atoi: "Atoi exampleLib ''5'' = Some 5"
  by code_simp

lemma example_slow: "ctxErr (exampleDb ''SELECT slow'') = Some DeadlineExceeded"
  by code_simp

lemma example_broken:
  "ctxErr (exampleDb ''SELECT broken'') = None"
  "queried (exampleDb ''SELECT broken'') = Inl ''syntax error''"
  by code_simp+

theorem GeneratePrometheusMetrics_timeout_witness:
  "GeneratePrometheusMetrics exampleLib ''5'' exampleDb
     (genericParser exampleLib ''sessions'' [] (map_of exampleDesc) Map.empty [])
     ''SELECT slow'' initial = Inr (Some (ErrorString ''DM query timed out''), initial) \<and>
   GeneratePrometheusMetrics exampleLib ''5'' exampleDb
     (genericParser exampleLib ''sessions'' [] (map_of exampleDesc) Map.empty [])
     ''SELECT broken'' initial = Inr (Some (ErrorString ''syntax error''), initial)"
  using GeneratePrometheusMetrics_timeout [OF example_Atoi, where db = exampleDb
      and query = "''SELECT slow''" and s = initial
      and parse = "genericParser exampleLib ''sessions'' [] (map_of exampleDesc) Map.empty []"]
    GeneratePrometheusMetrics_timeout [OF example_Atoi, where db = exampleDb
      and query = "''SELECT broken''" and s = initial
      and parse = "genericParser exampleLib ''sessions'' [] (map_of exampleDesc) Map.empty []"]
  by (simp add: example_slow example_broken)

text \<open>
  C6 as the specification states it fails. The deadline of the query below expires while
  its rows are read: the iteration ends with the context's error, which the code never
  reads, and \<^verbatim>\<open>nil\<close> is returned, not a time-out. And a query refused by database/sql
  with an error of text \<open>DM query timed out\<close>, with no deadline expired, returns an error
  that nothing tells from the time-out.
\<close>

theorem GeneratePrometheusMetrics_timeout_unreported:
  "ctxErr (lateDb ''SELECT late'') = None \<and>
   queried (lateDb ''SELECT late'') =
     Inr \<lparr>Columns = [''VALUE''], delivered = [], Err = Some ''context deadline exceeded''\<rparr> \<and>
   GeneratePrometheusMetrics exampleLib ''5'' lateDb
     (genericParser exampleLib ''sessions'' [] (map_of exampleDesc) Map.empty [])
     ''SELECT late'' initial = Inr (None, initial) \<and>
   ctxErr (lateDb ''SELECT refused'') = None \<and>
   GeneratePrometheusMetrics exampleLib ''5'' lateDb
     (genericParser exampleLib ''sessions'' [] (map_of exampleDesc) Map.empty [])
     ''SELECT refused'' initial = Inr (Some (ErrorString ''DM query timed out''), initial)"
  by code_simp

lemma rowsLoop_all_rows:
  assumes "\<forall>r \<in> set rs. \<exists>columns. r = Inr columns \<and> length columns = length cols \<and>
             (\<forall>s. \<exists>s'. parse (rowMap L cols columns) s = Inr (None, s'))"
  shows "\<exists>s'. rowsLoop L parse cols rs s = Inr (None, s')"
  using assms
proof (induction rs arbitrary: s)
  case Nil
  then show ?case by simp
next
  case (Cons r rs)
  then obtain columns where r: "r = Inr columns" "length columns = length cols"
    and h: "\<forall>s. \<exists>s'. parse (rowMap L cols columns) s = Inr (None, s')"
    by auto
  from h obtain s1 where "parse (rowMap L cols columns) s = Inr (None, s1)" by blast
  moreover from Cons have "\<exists>s'. rowsLoop L parse cols rs s1 = Inr (None, s')" by simp
  ultimately show ?case using r by (simp add: Scan_def)
qed

text \<open>
  C10. The query started (no time-out, no error), every delivered row scans into as many
  values as there are columns and the row handler returns no error on it, and the
  iteration then stopped because of an error of the driver (\<^verbatim>\<open>rows.Err()\<close> is not
  \<^verbatim>\<open>nil\<close>): \<^verbatim>\<open>GeneratePrometheusMetrics\<close> returns \<^verbatim>\<open>nil\<close>. The code never reads
  \<^verbatim>\<open>rows.Err()\<close>.
\<close>

theorem GeneratePrometheusMetrics_ignores_iteration_error:
  assumes "Atoi L queryTimeout = Some timeout"
    and "ctxErr (db query) \<noteq> Some DeadlineExceeded"
    and "queried (db query) = Inr rows"
    and "Err rows = Some e"
    and "\<forall>r \<in> set (delivered rows). \<exists>columns. r = Inr columns \<and>
           length columns = length (Columns rows) \<and>
           (\<forall>s. \<exists>s'. parse (rowMap L (Columns rows) columns) s = Inr (None, s'))"
  shows "\<exists>s'. GeneratePrometheusMetrics L queryTimeout db parse query s = Inr (None, s')"
  using assms(1-3) rowsLoop_all_rows [OF assms(5)]
  by (simp add: GeneratePrometheusMetrics_def)

lemma example_cut:
  "queried (exampleDb ''SELECT cut'') =
     Inr \<lparr>Columns = [''VALUE''], delivered = [Inr [VInt64 42]], Err = Some ''connection lost''\<rparr>"
  "ctxErr (exampleDb ''SELECT cut'') \<noteq> Some DeadlineExceeded"
  by code_simp+

lemma example_cut_row:
  "genericParser exampleLib ''sessions'' [] (map_of exampleDesc) Map.empty []
     (rowMap exampleLib [''VALUE''] [VInt64 42]) s =
   Inr (None, s\<lparr>ranged := Suc (ranged s),
     sent := sent s @ [\<lparr>fqName = ''dmdb_sessions_value'', helpText = ''Generic counter'',
        variableLabels = [], sampleType = GaugeValue, val = 42, labelValues = []\<rparr>],
     metricsCount := Suc (metricsCount s),
     logged := logged s @ [UnableToConvert ''bad'' ''Other'' []]\<rparr>)"
proof -
  define row where "row = rowMap exampleLib [''VALUE''] [VInt64 42]"
  have v: "ParseFloat exampleLib (TrimSpace exampleLib (index row ''value'')) = Some 42"
    and b: "ParseFloat exampleLib (TrimSpace exampleLib []) = None"
    and i: "index row ''bad'' = []"
    unfolding row_def by code_simp+
  have n: "newSample exampleLib ''sessions'' [] Map.empty [] [] row
      ''value'' ''Generic counter'' 42 =
      Inr \<lparr>fqName = ''dmdb_sessions_value'', helpText = ''Generic counter'',
        variableLabels = [], sampleType = GaugeValue, val = 42, labelValues = []\<rparr>"
    unfolding row_def by code_simp
  have "genericParser exampleLib ''sessions'' [] (map_of exampleDesc) Map.empty [] row s =
   Inr (None, s\<lparr>ranged := Suc (ranged s),
     sent := sent s @ [\<lparr>fqName = ''dmdb_sessions_value'', helpText = ''Generic counter'',
        variableLabels = [], sampleType = GaugeValue, val = 42, labelValues = []\<rparr>],
     metricsCount := Suc (metricsCount s),
     logged := logged s @ [UnableToConvert ''bad'' ''Other'' []]\<rparr>)"
    by (simp add: genericParser_def exampleLib_range)
       (simp add: exampleDesc_def v b n i)
  then show ?thesis by (simp add: row_def)
qed

theorem GeneratePrometheusMetrics_ignores_iteration_error_witness:
  "Err \<lparr>Columns = [''VALUE''], delivered = [Inr [VInt64 42 :: string Value]],
        Err = Some ''connection lost''\<rparr> = Some ''connection lost'' \<and>
   (\<exists>s'. GeneratePrometheusMetrics exampleLib ''5'' exampleDb
           (genericParser exampleLib ''sessions'' [] (map_of exampleDesc) Map.empty [])
           ''SELECT cut'' initial = Inr (None, s'))"
  using GeneratePrometheusMetrics_ignores_iteration_error [where L = exampleLib
      and db = exampleDb and query = "''SELECT cut''" and e = "''connection lost''"
      and parse = "genericParser exampleLib ''sessions'' [] (map_of exampleDesc) Map.empty []"
      and s = initial, OF example_Atoi example_cut(2) example_cut(1)]
  by (simp add: example_cut_row)

section \<open>Type Resolver: the kind of a column\<close>

text \<open>
  C8, as amended. \<^verbatim>\<open>GetMetricType\<close> looks the lower-cased column name up in the kind
  mapping, whose keys it takes as they are. When the mapping has an entry under the
  lower-cased name: a token that lower-cases to \<open>gauge\<close> gives the gauge, one that
  lower-cases to \<open>counter\<close> the counter (so the token is matched case-insensitively), and
  any other token reaches the panic, and no kind is returned. When the mapping has no
  entry under the lower-cased name (the column is not listed, or is listed only under a
  key that is not lower case), the column resolves to the gauge.
\<close>

theorem GetMetricType_resolves:
  "(metricsType (ToLower L c) = Some tok \<and> ToLower L tok = ''gauge''
      \<longrightarrow> GetMetricType L c metricsType = Inr GaugeValue) \<and>
   (metricsType (ToLower L c) = Some tok \<and> ToLower L tok = ''counter''
      \<longrightarrow> GetMetricType L c metricsType = Inr CounterValue) \<and>
   (metricsType (ToLower L c) = None \<longrightarrow> GetMetricType L c metricsType = Inr GaugeValue) \<and>
   (metricsType (ToLower L c) = Some tok \<and> ToLower L tok \<noteq> ''gauge'' \<and> ToLower L tok \<noteq> ''counter''
      \<longrightarrow> GetMetricType L c metricsType =
            Inl (Panic (ErrorString (''Error while getting prometheus type '' @ ToLower L tok))))"
  by (simp add: GetMetricType_def strToPromType_def)

theorem GetMetricType_resolves_witness:
  "GetMetricType (asciiLib []) ''Sessions'' [''sessions'' \<mapsto> ''GaUgE''] = Inr GaugeValue \<and>
   GetMetricType (asciiLib []) ''Sessions'' [''sessions'' \<mapsto> ''COUNTER''] = Inr CounterValue \<and>
   GetMetricType (asciiLib []) ''Sessions'' [''other'' \<mapsto> ''counter''] = Inr GaugeValue \<and>
   GetMetricType (asciiLib []) ''Sessions'' [''sessions'' \<mapsto> ''histogram''] =
     Inl (Panic (ErrorString ''Error while getting prometheus type histogram''))"
  using GetMetricType_resolves [of "[''sessions'' \<mapsto> ''GaUgE'']" "asciiLib []" "''Sessions''" "''GaUgE''"]
    GetMetricType_resolves [of "[''sessions'' \<mapsto> ''COUNTER'']" "asciiLib []" "''Sessions''" "''COUNTER''"]
    GetMetricType_resolves [of "[''other'' \<mapsto> ''counter'']" "asciiLib []" "''Sessions''" "''x''"]
    GetMetricType_resolves [of "[''sessions'' \<mapsto> ''histogram'']" "asciiLib []" "''Sessions''" "''histogram''"]
  by code_simp

text \<open>
  C8 as the specification states it fails: the column \<open>VALUE\<close> is mapped to the unknown
  token \<open>histogram\<close> under its own name, which is not lower case; the lookup of \<open>value\<close>
  finds no entry, and the column resolves to the gauge without a panic.
\<close>

theorem GetMetricType_downgrades_under_other_case:
  "GetMetricType (asciiLib []) ''VALUE'' [''VALUE'' \<mapsto> ''histogram''] = Inr GaugeValue"
  by code_simp

section \<open>Target Resolver\<close>

lemma parseTarget_db1: "parseTarget ''db1:5236'' = Inr (''db1'', 5236)"
  by (simp add: parseTarget_def ParseUint_def digitVal_def)

lemma FormatUint_5236: "FormatUint 5236 = ''5236''"
  by (simp add: FormatUint.simps)

text \<open>
  C7, as amended. When the section \<open>client\<close> exists and holds a non-empty user and
  password: the target \<open>db1:5236\<close> with the empty module resolves to a connection string
  with host \<open>db1\<close> and port 5236, and the empty target with the empty module resolves to
  one with the host and port of the section \<open>client\<close> (\<open>localhost\<close> and 3306 where the
  section has none). For a module other than the empty one and \<open>default\<close> with no section
  \<open>client.module\<close>, any target whose port, when it names one, is an unsigned number
  fails with the error that the section was not found.
\<close>

theorem formExporterDSN_canonical:
  "(GetSection cfg ''client'' = Some client \<and> KeyString cfg client ''user'' \<noteq> [] \<and>
    KeyString cfg client ''password'' \<noteq> [] \<longrightarrow>
      formExporterDSN ''db1:5236'' [] cfg =
        Inr (''dm://'' @ KeyString cfg client ''user'' @ '':'' @ KeyString cfg client ''password'' @
             ''@db1:5236?autoCommit=true'')) \<and>
   (GetSection cfg ''client'' = Some client \<and> KeyString cfg client ''user'' \<noteq> [] \<and>
    KeyString cfg client ''password'' \<noteq> [] \<longrightarrow>
      formExporterDSN [] [] cfg =
        Inr (''dm://'' @ KeyString cfg client ''user'' @ '':'' @ KeyString cfg client ''password'' @
             ''@'' @ MustString cfg (Section cfg ''client'') ''host'' ''localhost'' @ '':'' @
             FormatUint (MustUint cfg (Section cfg ''client'') ''port'' 3306) @
             ''?autoCommit=true'')) \<and>
   (module \<noteq> [] \<and> module \<noteq> ''default'' \<and> GetSection cfg (''client.'' @ module) = None \<and>
    (\<forall>e. parseTarget target \<noteq> Inl e) \<longrightarrow>
      formExporterDSN target module cfg =
        Inl (ErrorString (''didn't find section [client.'' @ module @ ''] in config'')))"
proof (intro conjI impI)
  assume "GetSection cfg ''client'' = Some client \<and> KeyString cfg client ''user'' \<noteq> [] \<and>
    KeyString cfg client ''password'' \<noteq> []"
  then show "formExporterDSN ''db1:5236'' [] cfg =
        Inr (''dm://'' @ KeyString cfg client ''user'' @ '':'' @ KeyString cfg client ''password'' @
             ''@db1:5236?autoCommit=true'')"
    by (simp add: formExporterDSN_def parseTarget_db1 sectionName_def FormatUint_5236 Let_def)
next
  assume "GetSection cfg ''client'' = Some client \<and> KeyString cfg client ''user'' \<noteq> [] \<and>
    KeyString cfg client ''password'' \<noteq> []"
  then show "formExporterDSN [] [] cfg =
        Inr (''dm://'' @ KeyString cfg client ''user'' @ '':'' @ KeyString cfg client ''password'' @
             ''@'' @ MustString cfg (Section cfg ''client'') ''host'' ''localhost'' @ '':'' @
             FormatUint (MustUint cfg (Section cfg ''client'') ''port'' 3306) @
             ''?autoCommit=true'')"
    by (simp add: formExporterDSN_def parseTarget_def sectionName_def Let_def)
next
  assume a: "module \<noteq> [] \<and> module \<noteq> ''default'' \<and> GetSection cfg (''client.'' @ module) = None \<and>
    (\<forall>e. parseTarget target \<noteq> Inl e)"
  then obtain hp where "parseTarget target = Inr hp"
    by (cases "parseTarget target") auto
  with a show "formExporterDSN target module cfg =
        Inl (ErrorString (''didn't find section [client.'' @ module @ ''] in config''))"
    by (simp add: formExporterDSN_def sectionName_def Let_def split: prod.splits)
qed

lemma exampleConfig_client:
  "GetSection exampleConfig ''client'' =
     Some [(''host'', ''x''), (''port'', ''1''), (''user'', ''SYSDBA''), (''password'', ''secret'')]"
  "KeyString exampleConfig
     [(''host'', ''x''), (''port'', ''1''), (''user'', ''SYSDBA''), (''password'', ''secret'')]
     ''user'' = ''SYSDBA''"
  "KeyString exampleConfig
     [(''host'', ''x''), (''port'', ''1''), (''user'', ''SYSDBA''), (''password'', ''secret'')]
     ''password'' = ''secret''"
  "MustString exampleConfig (Section exampleConfig ''client'') ''host'' ''localhost'' = ''x''"
  "GetSection exampleConfig ''client.missingmod'' = None"
  "parseTarget ''h'' = Inr (''h'', 0)"
  by code_simp+

lemma exampleConfig_port:
  "FormatUint (MustUint exampleConfig (Section exampleConfig ''client'') ''port'' 3306) = ''1''"
  by (simp add: exampleConfig_def iniFile_def MustUint_def ParseUint_def digitVal_def
      FormatUint.simps)

theorem formExporterDSN_canonical_witness:
  "formExporterDSN ''db1:5236'' [] exampleConfig = Inr ''dm://SYSDBA:secret@db1:5236?autoCommit=true'' \<and>
   formExporterDSN [] [] exampleConfig = Inr ''dm://SYSDBA:secret@x:1?autoCommit=true'' \<and>
   formExporterDSN ''h'' ''missingmod'' exampleConfig =
     Inl (ErrorString ''didn't find section [client.missingmod] in config'')"
  using formExporterDSN_canonical [of exampleConfig
      "[(''host'', ''x''), (''port'', ''1''), (''user'', ''SYSDBA''), (''password'', ''secret'')]"
      "''missingmod''" "''h''"]
  by (simp add: exampleConfig_client exampleConfig_port)

text \<open>
  C7 as the specification states it fails. With the store of the specification's own
  example, a section \<open>client\<close> that holds a host and a port only, the target \<open>db1:5236\<close>
  does not resolve: the code refuses a section without user or password. And a target
  with a port that is no number fails with the error of the port before the module's
  section is looked up.
\<close>

lemma hostPortConfig_client:
  "GetSection hostPortConfig ''client'' = Some [(''host'', ''x''), (''port'', ''1'')]"
  "KeyString hostPortConfig [(''host'', ''x''), (''port'', ''1'')] ''user'' = []"
  by code_simp+

theorem formExporterDSN_needs_credentials:
  "formExporterDSN ''db1:5236'' [] hostPortConfig =
     Inl (ErrorString ''no user or password specified under [client] in config'') \<and>
   formExporterDSN ''h:bad'' ''missingmod'' exampleConfig = Inl (ErrorString ''invalid port bad'')"
proof -
  have "formExporterDSN ''db1:5236'' [] hostPortConfig =
     Inl (ErrorString ''no user or password specified under [client] in config'')"
    by (simp add: formExporterDSN_def parseTarget_db1 sectionName_def Let_def
        hostPortConfig_client)
  moreover have "formExporterDSN ''h:bad'' ''missingmod'' exampleConfig =
     Inl (ErrorString ''invalid port bad'')"
    by code_simp
  ultimately show ?thesis by simp
qed

section \<open>Collector: the tasks of a cycle\<close>

lemma ScrapeMetric_noDesc:
  "ScrapeMetric exampleLib ''5'' exampleDb noDescMetric =
     Inr (None, \<lparr>metricsCount = 0, sent = [], logged = [], ranged = 1\<rparr>)"
  by code_simp

lemma ScrapeMetric_value:
  "ScrapeMetric exampleLib ''5'' exampleDb valueMetric =
     Inr (None, \<lparr>metricsCount = 1,
       sent = [\<lparr>fqName = ''dmdb_sessions_value'', helpText = ''Generic counter'',
          variableLabels = [], sampleType = GaugeValue, val = 42, labelValues = []\<rparr>],
       logged = [UnableToConvert ''bad'' ''Other'' []], ranged = 1\<rparr>)"
  by code_simp

lemma ScrapeMetric_broken:
  "ScrapeMetric exampleLib ''5'' exampleDb brokenMetric =
     Inr (Some (ErrorString ''syntax error''), initial)"
  by code_simp

lemma example_metrics:
  "MetricsDesc noDescMetric = Map.empty" "Request noDescMetric \<noteq> []"
  "MetricsDesc valueMetric \<noteq> Map.empty" "Request valueMetric \<noteq> []"
  "MetricsDesc brokenMetric \<noteq> Map.empty" "Request brokenMetric \<noteq> []"
  "Context brokenMetric = ''broken''" "Context valueMetric = ''sessions''"
  by (simp_all add: noDescMetric_def valueMetric_def brokenMetric_def exampleDesc_def)

text \<open>
  C2. The claim asks that a definition without value columns is rejected. The task logs
  the line about the missing \<^verbatim>\<open>metricsdesc\<close> and then scrapes all the same (there is no
  \<^verbatim>\<open>return\<close> after the log line): for the definition below the query runs, no sample is
  sent, \<^verbatim>\<open>ScrapeMetric\<close> returns \<^verbatim>\<open>nil\<close>, and the error counter of the context stays at 0.
\<close>

theorem scrapeTask_scrapes_without_metricsdesc:
  "scrapeTask exampleLib ''5'' exampleDb noDescMetric emptyCycle =
     Inr \<lparr>err = None, ch = [], scrapeErrors = (\<lambda>c. 0), errlog = [MissingMetricsDesc]\<rparr>"
  by (simp add: scrapeTask_def ScrapeMetric_noDesc example_metrics emptyCycle_def)

text \<open>
  C9. The claim asks that no task writes a variable that another task writes. Every
  task assigns the variable \<^verbatim>\<open>err\<close> of \<^verbatim>\<open>scrape\<close>, from which the gauge
  \<^verbatim>\<open>last_scrape_error\<close> is set when all tasks are done. With one definition whose query
  fails and one whose query succeeds, the gauge is 0 when the failing task finishes first
  and 1 when it finishes last; the error counter of the failing context is 1 both times.
\<close>

theorem runTasks_share_err:
  "(case runTasks exampleLib ''5'' exampleDb [brokenMetric, valueMetric] emptyCycle of
      Inl a \<Rightarrow> False
    | Inr c \<Rightarrow> err c = None \<and> lastScrapeError c = 0 \<and> scrapeErrors c ''broken'' = 1) \<and>
   (case runTasks exampleLib ''5'' exampleDb [valueMetric, brokenMetric] emptyCycle of
      Inl a \<Rightarrow> False
    | Inr c \<Rightarrow> err c = Some (ErrorString ''syntax error'') \<and> lastScrapeError c = 1 \<and>
        scrapeErrors c ''broken'' = 1)"
  by (simp add: scrapeTask_def ScrapeMetric_value ScrapeMetric_broken example_metrics
      emptyCycle_def lastScrapeError_def initial_def)

section \<open>cleanName on the specification's example\<close>

text \<open>
  With ASCII lower-casing, \<^verbatim>\<open>cleanName\<close> turns spaces into underscores, removes
  parentheses, slashes and asterisks, and lower-cases the rest.
\<close>

theorem cleanName_example:
  "cleanName exampleLib ''My (Weird) Name/*'' = ''my_weird_name''"
  by code_simp

end
